theory Spec2Isabelle
  imports Main
begin

section \<open>Errors of the API client\<close>

text \<open>
  The Go struct \<^verbatim>\<open>APIError\<close> of the client package. \<^verbatim>\<open>RawMessage\<close> is a byte
  slice; a \<open>string\<close> is a list of bytes, and the nil slice and the empty slice are both
  the empty list. \<^verbatim>\<open>StatusCode\<close> and \<^verbatim>\<open>retryAfter\<close> are Go \<^verbatim>\<open>int\<close>s; every value
  the client stores there is an HTTP status or the result of \<^verbatim>\<open>strconv.Atoi\<close>, so no
  arithmetic on them can overflow.
\<close>

record APIError =
  Code :: string
  Message :: string
  StatusCode :: int
  RawMessage :: string
  retryAfter :: int

text \<open>
  A Go \<^verbatim>\<open>error\<close> value, as far as the client can tell errors apart: a pointer to an
  \<^verbatim>\<open>APIError\<close>, an error made by \<^verbatim>\<open>fmt.Errorf\<close> with the verb \<^verbatim>\<open>%w\<close> (the text in
  front of the wrapped error, and the wrapped error), or any other error, which has a
  text and wraps nothing. The nil error is \<open>None\<close> of \<open>error option\<close>.
\<close>

datatype error =
    API APIError
  | Wrap string error
  | Leaf string

text \<open>The method \<^verbatim>\<open>Error()\<close>: \<^verbatim>\<open>fmt.Sprintf("%s - %s", e.Code, e.Message)\<close> for an API error.\<close>

fun Error :: "error \<Rightarrow> string" where
  "Error (API e) = Code e @ '' - '' @ Message e"
| "Error (Wrap pre e) = pre @ Error e"
| "Error (Leaf s) = s"

text \<open>
  \<^verbatim>\<open>errors.As(err, &apiErr)\<close> with \<^verbatim>\<open>apiErr\<close> of type \<^verbatim>\<open>*APIError\<close>: the first API error
  on the chain of wrapped errors, if there is one.
\<close>

fun errors_As :: "error \<Rightarrow> APIError option" where
  "errors_As (API e) = Some e"
| "errors_As (Wrap pre e) = errors_As e"
| "errors_As (Leaf s) = None"

definition StatusNotFound :: int where
  "StatusNotFound = 404"

definition StatusNoContent :: int where
  "StatusNoContent = 204"

definition StatusTooManyRequests :: int where
  "StatusTooManyRequests = 429"

definition hasStatus :: "error option \<Rightarrow> int \<Rightarrow> bool" where
  "hasStatus err statusCode =
     (case err of
        None \<Rightarrow> False
      | Some e \<Rightarrow>
          (case errors_As e of
             None \<Rightarrow> False
           | Some apiErr \<Rightarrow> StatusCode apiErr = statusCode))"

definition NotFound :: "error option \<Rightarrow> bool" where
  "NotFound err = hasStatus err StatusNotFound"

definition noContent :: "error option \<Rightarrow> bool" where
  "noContent err = hasStatus err StatusNoContent"

section \<open>Requests, responses and the outside world\<close>

text \<open>
  \<^verbatim>\<open>http.Header\<close>: the values stored under each key, as an association list.
  \<^verbatim>\<open>Get\<close> is the first value of the key, or the empty string; \<^verbatim>\<open>Set\<close> replaces the
  values of the key; \<^verbatim>\<open>Add\<close> appends one. The keys the client uses are already in
  canonical form.
\<close>

type_synonym Header = "(string \<times> string list) list"

definition Header_Get :: "Header \<Rightarrow> string \<Rightarrow> string" where
  "Header_Get h key = (case map_of h key of None \<Rightarrow> [] | Some [] \<Rightarrow> [] | Some (v # vs) \<Rightarrow> v)"

definition Header_Set :: "Header \<Rightarrow> string \<Rightarrow> string \<Rightarrow> Header" where
  "Header_Set h key v = (key, [v]) # filter (\<lambda>kv. fst kv \<noteq> key) h"

definition Header_Add :: "Header \<Rightarrow> string \<Rightarrow> string \<Rightarrow> Header" where
  "Header_Add h key v =
     (case map_of h key of
        None \<Rightarrow> h @ [(key, [v])]
      | Some vs \<Rightarrow> (key, vs @ [v]) # filter (\<lambda>kv. fst kv \<noteq> key) h)"

text \<open>
  \<^verbatim>\<open>context.Context\<close>: the time at which its \<^verbatim>\<open>Done\<close> channel is closed, if it ever
  is, and the error \<^verbatim>\<open>Err()\<close> returns from then on. Times and durations are integers
  of nanoseconds, as \<^verbatim>\<open>time.Duration\<close> is.
\<close>

record Context =
  ctx_Done :: "int option"
  ctx_Err :: error

record clientRequest =
  ctx :: Context
  cr_method :: string
  url :: string
  body :: string
  errorOnNoContent :: bool

text \<open>\<^verbatim>\<open>http.Request\<close> and \<^verbatim>\<open>http.Response\<close>, with the fields the client touches.
  \<open>resp_Body\<close> is what \<^verbatim>\<open>io.ReadAll(resp.Body)\<close> returns.\<close>

record Request =
  req_Method :: string
  req_URL :: string
  req_Body :: string
  req_Header :: Header

record Response =
  resp_StatusCode :: int
  resp_Header :: Header
  resp_Body :: "error + string"

record Client =
  token :: string
  baseURL :: string

text \<open>
  What the client calls and does not define: \<^verbatim>\<open>http.NewRequestWithContext\<close> (here its
  error, if it returns one), the round trip \<^verbatim>\<open>c.http().Do\<close> (the answer to the round
  trip of a given number, and the time it takes), \<^verbatim>\<open>json.Unmarshal\<close> into the caller's
  value (its error, and the value it leaves there) and \<^verbatim>\<open>json.Unmarshal\<close> into the
  error envelope (its error, or the \<^verbatim>\<open>APIError\<close> it filled in, starting from the zero
  value). They are parameters of the model.
\<close>

record 'v env =
  NewRequestWithContext :: "Context \<Rightarrow> string \<Rightarrow> string \<Rightarrow> string \<Rightarrow> error option"
  Do :: "nat \<Rightarrow> Request \<Rightarrow> int \<times> (error + Response)"
  Unmarshal :: "string \<Rightarrow> 'v \<Rightarrow> error option \<times> 'v"
  UnmarshalError :: "string \<Rightarrow> error + APIError"

datatype event =
    Sent Request
  | RateLimitLog APIError int
  | TimerStarted int
  | TimerStopped

text \<open>
  The state a call runs in: the clock, the number of round trips made so far, what the
  call has done (requests sent, diagnostics logged, timers), and the caller's \<^verbatim>\<open>v\<close>:
  \<open>None\<close> is the nil interface, \<open>Some x\<close> a pointer to a variable that holds \<open>x\<close>.
\<close>

record 'v world =
  now :: int
  calls :: nat
  trace :: "event list"
  slot :: "'v option"

section \<open>Numbers and text\<close>

definition isDigit :: "char \<Rightarrow> bool" where
  "isDigit ch = (48 \<le> (of_char ch :: nat) \<and> (of_char ch :: nat) \<le> 57)"

text \<open>
  Modelled from the spec: \<^verbatim>\<open>strconv.Atoi\<close> is Go's standard library and not part of
  src/; the spec has the header parsed "as a non-negative integer number of seconds".
  The definition follows the library: an optional sign, then one or more decimal digits
  and nothing else, and a value that fits the 64-bit \<^verbatim>\<open>int\<close>; \<open>None\<close> is the error.
\<close>

definition Atoi :: "string \<Rightarrow> int option" where
  "Atoi s =
     (let neg = (s \<noteq> [] \<and> hd s = CHR ''-'');
          ds = (if s \<noteq> [] \<and> (hd s = CHR ''-'' \<or> hd s = CHR ''+'') then tl s else s);
          n = foldl (\<lambda>a ch. 10 * a + (int (of_char ch) - 48)) 0 ds;
          x = (if neg then - n else n)
      in if ds = [] \<or> \<not> list_all isDigit ds then None
         else if x < - (2 ^ 63) \<or> 2 ^ 63 \<le> x then None
         else Some x)"

text \<open>The decimal digits of a number, as the verb \<^verbatim>\<open>%d\<close> prints them.\<close>

fun digits :: "nat \<Rightarrow> string" where
  "digits n = (if n < 10 then [char_of (48 + n)] else digits (n div 10) @ [char_of (48 + n mod 10)])"

definition itoa :: "int \<Rightarrow> string" where
  "itoa i = (if i < 0 then CHR ''-'' # digits (nat (- i)) else digits (nat i))"

definition version :: string where
  "version = ''dev''"

definition Second :: int where
  "Second = 1000000000"

section \<open>The request executor\<close>

definition toHTTPRequest :: "'v env \<Rightarrow> clientRequest \<Rightarrow> error + Request" where
  "toHTTPRequest E cr =
     (case NewRequestWithContext E (ctx cr) (cr_method cr) (url cr) (body cr) of
        Some err \<Rightarrow> Inl err
      | None \<Rightarrow>
          (let r = \<lparr>req_Method = cr_method cr, req_URL = url cr, req_Body = body cr, req_Header = []\<rparr>;
               r = r\<lparr>req_Header :=
                     Header_Set (req_Header r) ''User-Agent'' (''terraform-provider-vercel/'' @ version)\<rparr>;
               r = (if body cr \<noteq> []
                    then r\<lparr>req_Header := Header_Set (req_Header r) ''Content-Type'' ''application/json''\<rparr>
                    else r)
           in Inr r))"

text \<open>The request as it leaves \<^verbatim>\<open>_doRequest\<close>: with the bearer token added.\<close>

definition authorize :: "Client \<Rightarrow> Request \<Rightarrow> Request" where
  "authorize c req = req\<lparr>req_Header := Header_Add (req_Header req) ''Authorization'' (''Bearer '' @ token c)\<rparr>"

text \<open>
  The branch of \<^verbatim>\<open>_doRequest\<close> for a status of 300 or more, after the body was read:
  the error it returns.
\<close>

definition errorResponse :: "'v env \<Rightarrow> Response \<Rightarrow> string \<Rightarrow> error" where
  "errorResponse E resp responseBody =
     (if responseBody = []
      then API \<lparr>Code = [], Message = [], StatusCode = resp_StatusCode resp, RawMessage = [],
                retryAfter = 0\<rparr>
      else
        (case UnmarshalError E responseBody of
           Inl err \<Rightarrow>
             Wrap (''error unmarshaling response for status code '' @ itoa (resp_StatusCode resp) @ '': '')
               err
         | Inr e0 \<Rightarrow>
             (let e1 = e0\<lparr>StatusCode := resp_StatusCode resp, RawMessage := responseBody,
                          retryAfter := 1000\<rparr>;
                  retryAfterRaw = Header_Get (resp_Header resp) ''Retry-After''
              in if resp_StatusCode resp = StatusTooManyRequests
                 then
                   (if retryAfterRaw \<noteq> []
                    then
                      (case Atoi retryAfterRaw of
                         None \<Rightarrow> API e1
                       | Some n \<Rightarrow> if n > 0 then API (e1\<lparr>retryAfter := n\<rparr>) else API e1)
                    else API e1)
                 else API e1)))"

text \<open>
  The branch of \<^verbatim>\<open>_doRequest\<close> for a status below 300, after the body was read: the
  error it returns, and the caller's \<^verbatim>\<open>v\<close> afterwards.
\<close>

definition decodeResponse ::
  "'v env \<Rightarrow> Response \<Rightarrow> string \<Rightarrow> bool \<Rightarrow> 'v option \<Rightarrow> error option \<times> 'v option" where
  "decodeResponse E resp responseBody errNoContent v =
     (case v of
        None \<Rightarrow> (None, None)
      | Some x \<Rightarrow>
          if errNoContent \<and> resp_StatusCode resp = StatusNoContent
          then (Some (API \<lparr>Code = ''no_content'', Message = ''No content'',
                           StatusCode = resp_StatusCode resp, RawMessage = [], retryAfter = 0\<rparr>),
                Some x)
          else
            (case Unmarshal E responseBody x of
               (Some err, x') \<Rightarrow>
                 (Some (Wrap (''error unmarshaling response '' @ responseBody @ '': '') err), Some x')
             | (None, x') \<Rightarrow> (None, Some x')))"

text \<open>The method \<^verbatim>\<open>_doRequest\<close> (an Isabelle name cannot start with an underscore).\<close>

definition u_doRequest ::
  "'v env \<Rightarrow> Client \<Rightarrow> Request \<Rightarrow> bool \<Rightarrow> 'v world \<Rightarrow> error option \<times> 'v world" where
  "u_doRequest E c req errNoContent w =
     (let req' = authorize c req;
          w' = w\<lparr>now := now w + fst (Do E (calls w) req'), calls := Suc (calls w),
                 trace := trace w @ [Sent req']\<rparr>
      in case snd (Do E (calls w) req') of
           Inl err \<Rightarrow> (Some (Wrap ''error doing http request: '' err), w')
         | Inr resp \<Rightarrow>
             (case resp_Body resp of
                Inl err \<Rightarrow> (Some (Wrap ''error reading response body: '' err), w')
              | Inr responseBody \<Rightarrow>
                  if resp_StatusCode resp \<ge> 300
                  then (Some (errorResponse E resp responseBody), w')
                  else
                    (let r = decodeResponse E resp responseBody errNoContent (slot w')
                     in (fst r, w'\<lparr>slot := snd r\<rparr>))))"

section \<open>The retry coordinator\<close>

text \<open>The closure \<^verbatim>\<open>doRequest := func() error\<close> inside the method \<^verbatim>\<open>doRequest\<close>.\<close>

definition doRequest_closure ::
  "'v env \<Rightarrow> Client \<Rightarrow> clientRequest \<Rightarrow> 'v world \<Rightarrow> error option \<times> 'v world" where
  "doRequest_closure E c req w =
     (case toHTTPRequest E req of
        Inl err \<Rightarrow> (Some err, w)
      | Inr r \<Rightarrow> u_doRequest E c r (errorOnNoContent req) w)"

text \<open>
  The \<^verbatim>\<open>select\<close> on \<^verbatim>\<open>req.ctx.Done()\<close> and the timer's channel, entered at time \<open>t\<close>
  with a timer of duration \<open>d\<close>: which case runs, and when. The context's case runs when
  \<^verbatim>\<open>Done\<close> is closed before the timer fires (at once, when it was closed already); the
  timer's case runs otherwise. When both become ready at the same instant Go picks
  either; the model takes the timer's case.
\<close>

datatype selected = CtxDone | TimerC

definition select_wait :: "Context \<Rightarrow> int \<Rightarrow> int \<Rightarrow> selected \<times> int" where
  "select_wait cx t d =
     (case ctx_Done cx of
        None \<Rightarrow> (TimerC, t + d)
      | Some tc \<Rightarrow> if tc < t + d then (CtxDone, max t tc) else (TimerC, t + d))"

text \<open>
  One pass through the body of the \<^verbatim>\<open>for\<close> loop: it returns from the method
  (\<open>Return\<close>, also for \<^verbatim>\<open>break\<close>, after which the method returns \<^verbatim>\<open>err\<close>) or reaches
  the end of the body (\<open>Continue\<close>). The variable \<^verbatim>\<open>err\<close> read by the condition and
  returned after the loop is the one declared before the loop. Inside the \<^verbatim>\<open>if\<close>,
  \<^verbatim>\<open>r, err := req.toHTTPRequest()\<close> declares a new \<^verbatim>\<open>err\<close>, and the result of the
  retry is assigned to that inner variable: the body never changes the outer one, so
  \<open>Continue\<close> carries the new state only.
\<close>

datatype 'v step = Return "error option" "'v world" | Continue "'v world"

definition retryable :: "error option \<Rightarrow> APIError option" where
  "retryable err =
     (case err of
        None \<Rightarrow> None
      | Some e \<Rightarrow>
          (case errors_As e of
             None \<Rightarrow> None
           | Some apiErr \<Rightarrow>
               if StatusCode apiErr = StatusTooManyRequests \<and> retryAfter apiErr > 0
                  \<and> retryAfter apiErr < 5 * 60
               then Some apiErr else None))"

definition loop_body ::
  "'v env \<Rightarrow> Client \<Rightarrow> clientRequest \<Rightarrow> error option \<Rightarrow> 'v world \<Rightarrow> 'v step" where
  "loop_body E c req err w =
     (case retryable err of
        None \<Rightarrow> Return err w
      | Some apiErr \<Rightarrow>
          (let d = retryAfter apiErr * Second;
               w1 = w\<lparr>trace := trace w @ [RateLimitLog apiErr (retryAfter apiErr), TimerStarted d]\<rparr>
           in case select_wait (ctx req) (now w1) d of
                (CtxDone, t) \<Rightarrow>
                  Return (Some (ctx_Err (ctx req))) (w1\<lparr>now := t, trace := trace w1 @ [TimerStopped]\<rparr>)
              | (TimerC, t) \<Rightarrow>
                  (case toHTTPRequest E req of
                     Inl err' \<Rightarrow> Return (Some err') (w1\<lparr>now := t\<rparr>)
                   | Inr r \<Rightarrow>
                       (case u_doRequest E c r (errorOnNoContent req) (w1\<lparr>now := t\<rparr>) of
                          (None, w2) \<Rightarrow> Return None w2
                        | (Some err', w2) \<Rightarrow> Continue w2))))"

function retry_loop ::
  "'v env \<Rightarrow> Client \<Rightarrow> clientRequest \<Rightarrow> nat \<Rightarrow> error option \<Rightarrow> 'v world \<Rightarrow> error option \<times> 'v world" where
  "retry_loop E c req retries err w =
     (if retries < 3
      then
        (case loop_body E c req err w of
           Return r w' \<Rightarrow> (r, w')
         | Continue w' \<Rightarrow> retry_loop E c req (Suc retries) err w')
      else (err, w))"
  by pat_completeness auto
termination
  by (relation "measure (\<lambda>(E, c, req, retries, err, w). 3 - retries)") auto

definition doRequest ::
  "'v env \<Rightarrow> Client \<Rightarrow> clientRequest \<Rightarrow> 'v world \<Rightarrow> error option \<times> 'v world" where
  "doRequest E c req w =
     (case doRequest_closure E c req w of
        (err, w') \<Rightarrow> retry_loop E c req 0 err w')"

section \<open>The URL builder\<close>

text \<open>
  Modelled from the spec: \<^verbatim>\<open>url.PathEscape\<close> and \<^verbatim>\<open>url.PathUnescape\<close> are Go's standard
  library (net/url) and not part of src/; the spec calls them percent-escaping of a
  path segment, with \<^verbatim>\<open>decode(escape(x)) == x\<close>. The definitions follow the library for
  a path segment: letters, digits and \<^verbatim>\<open>- _ . ~ $ & + : = @\<close> are kept, every other
  byte becomes \<^verbatim>\<open>%\<close> and two upper-case hexadecimal digits; decoding fails on a
  \<^verbatim>\<open>%\<close> that two hexadecimal digits do not follow.
\<close>

definition shouldEscape :: "char \<Rightarrow> bool" where
  "shouldEscape ch =
     (let n = (of_char ch :: nat)
      in if (97 \<le> n \<and> n \<le> 122) \<or> (65 \<le> n \<and> n \<le> 90) \<or> (48 \<le> n \<and> n \<le> 57) then False
         else if ch \<in> set ''-_.~'' then False
         else if ch \<in> set ''$&+,/:;=?@''
           then ch = CHR ''/'' \<or> ch = CHR '';'' \<or> ch = CHR '','' \<or> ch = CHR ''?''
         else True)"

definition upperhex :: "nat \<Rightarrow> char" where
  "upperhex n = ''0123456789ABCDEF'' ! n"

definition escape_byte :: "char \<Rightarrow> string" where
  "escape_byte ch =
     (if shouldEscape ch
      then [CHR ''%'', upperhex ((of_char ch :: nat) div 16), upperhex ((of_char ch :: nat) mod 16)]
      else [ch])"

definition PathEscape :: "string \<Rightarrow> string" where
  "PathEscape s = concat (map escape_byte s)"

definition ishex :: "char \<Rightarrow> bool" where
  "ishex ch =
     (let n = (of_char ch :: nat)
      in (48 \<le> n \<and> n \<le> 57) \<or> (97 \<le> n \<and> n \<le> 102) \<or> (65 \<le> n \<and> n \<le> 70))"

definition unhex :: "char \<Rightarrow> nat" where
  "unhex ch =
     (let n = (of_char ch :: nat)
      in if 48 \<le> n \<and> n \<le> 57 then n - 48
         else if 97 \<le> n \<and> n \<le> 102 then n - 97 + 10
         else if 65 \<le> n \<and> n \<le> 70 then n - 65 + 10
         else 0)"

fun PathUnescape :: "string \<Rightarrow> string option" where
  "PathUnescape [] = Some []"
| "PathUnescape (ch # s) =
     (if ch = CHR ''%''
      then
        (case s of
           a # b # r \<Rightarrow>
             if ishex a \<and> ishex b
             then map_option ((#) (char_of (unhex a * 16 + unhex b))) (PathUnescape r)
             else None
         | _ \<Rightarrow> None)
      else map_option ((#) ch) (PathUnescape s))"

text \<open>
  Modelled from the spec: \<^verbatim>\<open>fmt.Sprintf\<close> is Go's standard library and not part of
  src/; the spec has the values substituted "into the template positionally". The
  definition follows the library on string arguments for the fragment the client's
  templates are written in: text, the verb \<^verbatim>\<open>%s\<close>, and \<^verbatim>\<open>%%\<close>; with the library's
  output for a verb without an argument, for arguments without a verb and for a format
  that ends in \<^verbatim>\<open>%\<close>. \<open>None\<close> stands for a format outside this fragment (another
  verb, a flag, a width or an argument index), about which the model says nothing.
\<close>

fun commaSep :: "string list \<Rightarrow> string" where
  "commaSep [] = []"
| "commaSep [a] = ''string='' @ a"
| "commaSep (a # b # as) = ''string='' @ a @ '', '' @ commaSep (b # as)"

definition extraArgs :: "string list \<Rightarrow> string" where
  "extraArgs as = (if as = [] then [] else ''%!(EXTRA '' @ commaSep as @ '')'')"

fun Sprintf :: "string \<Rightarrow> string list \<Rightarrow> string option" where
  "Sprintf [] as = Some (extraArgs as)"
| "Sprintf [ch] as =
     (if ch = CHR ''%'' then Some (''%!(NOVERB)'' @ extraArgs as) else Some (ch # extraArgs as))"
| "Sprintf (ch # verb # f) as =
     (if ch \<noteq> CHR ''%'' then map_option ((#) ch) (Sprintf (verb # f) as)
      else if verb = CHR ''%'' then map_option ((#) CHR ''%'') (Sprintf f as)
      else if verb = CHR ''s''
        then
          (case as of
             [] \<Rightarrow> map_option ((@) ''%!s(MISSING)'') (Sprintf f [])
           | a # as' \<Rightarrow> map_option ((@) a) (Sprintf f as'))
      else None)"

definition New :: "string \<Rightarrow> Client" where
  "New tok = \<lparr>token = tok, baseURL = ''https://api.vercel.com''\<rparr>"

definition makeURL :: "Client \<Rightarrow> string \<Rightarrow> string list \<Rightarrow> string option" where
  "makeURL c urlPathSpecifier urlPathValues =
     (let escaped = map PathEscape urlPathValues
      in case Sprintf ''%s%s'' [baseURL c, urlPathSpecifier] of
           None \<Rightarrow> None
         | Some format \<Rightarrow> Sprintf format escaped)"

text \<open>
  A path template as the spec has it: pieces of text without \<^verbatim>\<open>%\<close>, with one
  placeholder \<^verbatim>\<open>%s\<close> between each two; and the same pieces with values in the
  placeholders' places.
\<close>

fun template :: "string list \<Rightarrow> string" where
  "template [] = []"
| "template [p] = p"
| "template (p # q # ps) = p @ ''%s'' @ template (q # ps)"

fun filled :: "string list \<Rightarrow> string list \<Rightarrow> string" where
  "filled [] vs = []"
| "filled [p] vs = p"
| "filled (p # q # ps) [] = p @ filled (q # ps) []"
| "filled (p # q # ps) (v # vs) = p @ v @ filled (q # ps) vs"

definition plain :: "string \<Rightarrow> bool" where
  "plain p = (CHR ''%'' \<notin> set p)"

section \<open>Example inputs\<close>

text \<open>
  The error envelope of the remote API, and \<^verbatim>\<open>json.Unmarshal\<close> on the bodies of the
  examples: the envelopes listed decode to their code and message, and the other body
  the examples send to it, \<^verbatim>\<open><html>\<close>, is not JSON. Decoding into a string variable:
  the JSON string \<^verbatim>\<open>"ready"\<close> decodes, the empty body does not. No example uses
  another body.
\<close>

definition envelope :: "string \<Rightarrow> string \<Rightarrow> string" where
  \<open>envelope cd msg = ''{"error":{"code":"'' @ cd @ ''","message":"'' @ msg @ ''"}}''\<close>

definition example_envelopes :: "(string \<times> APIError) list" where
  "example_envelopes =
     map (\<lambda>(cd, msg). (envelope cd msg,
            \<lparr>Code = cd, Message = msg, StatusCode = 0, RawMessage = [], retryAfter = 0\<rparr>))
       [(''rate_limited'', ''first''), (''rate_limited'', ''second''), (''rate_limited'', ''third''),
        (''rate_limited'', ''fourth''), (''internal_error'', ''boom'')]"

definition example_UnmarshalError :: "string \<Rightarrow> error + APIError" where
  "example_UnmarshalError b =
     (case map_of example_envelopes b of
        Some e \<Rightarrow> Inr e
      | None \<Rightarrow> Inl (Leaf ''invalid character''))"

definition ready :: string where
  \<open>ready = ''"ready"''\<close>

definition example_Unmarshal :: "string \<Rightarrow> string \<Rightarrow> error option \<times> string" where
  "example_Unmarshal b x =
     (if b = ready then (None, ''ready'') else (Some (Leaf ''unexpected end of JSON input''), x))"

text \<open>A server that answers the round trips with the responses listed, in 20 ms each.\<close>

definition scripted :: "Response list \<Rightarrow> nat \<Rightarrow> Request \<Rightarrow> int \<times> (error + Response)" where
  "scripted rs k r =
     (if k < length rs then (20000000, Inr (rs ! k)) else (0, Inl (Leaf ''connection refused'')))"

definition example_env :: "Response list \<Rightarrow> string env" where
  "example_env rs =
     \<lparr>NewRequestWithContext = (\<lambda>cx m u b. None), Do = scripted rs,
      Unmarshal = example_Unmarshal, UnmarshalError = example_UnmarshalError\<rparr>"

definition example_request :: "int option \<Rightarrow> bool \<Rightarrow> clientRequest" where
  "example_request cancel flag =
     \<lparr>ctx = \<lparr>ctx_Done = cancel, ctx_Err = Leaf ''context canceled''\<rparr>, cr_method = ''GET'',
      url = ''https://api.vercel.com/v9/projects/prj_1'', body = [], errorOnNoContent = flag\<rparr>"

definition example_http_request :: Request where
  "example_http_request =
     \<lparr>req_Method = ''GET'', req_URL = ''https://api.vercel.com/v9/projects/prj_1'', req_Body = [],
      req_Header = [(''User-Agent'', [''terraform-provider-vercel/dev''])]\<rparr>"

definition world0 :: "string option \<Rightarrow> string world" where
  "world0 v = \<lparr>now = 0, calls = 0, trace = [], slot = v\<rparr>"

definition rate_limited :: "string \<Rightarrow> string \<Rightarrow> Response" where
  "rate_limited after msg =
     \<lparr>resp_StatusCode = 429,
      resp_Header = (if after = [] then [] else [(''Retry-After'', [after])]),
      resp_Body = Inr (envelope ''rate_limited'' msg)\<rparr>"

definition answered :: "int \<Rightarrow> string \<Rightarrow> Response" where
  "answered status b = \<lparr>resp_StatusCode = status, resp_Header = [], resp_Body = Inr b\<rparr>"

definition limited_error :: "string \<Rightarrow> int \<Rightarrow> APIError" where
  "limited_error msg after =
     \<lparr>Code = ''rate_limited'', Message = msg, StatusCode = 429,
      RawMessage = envelope ''rate_limited'' msg, retryAfter = after\<rparr>"

definition always_limited :: "Response list" where
  "always_limited =
     [rate_limited ''1'' ''first'', rate_limited ''2'' ''second'', rate_limited ''3'' ''third'',
      rate_limited ''4'' ''fourth'']"

definition limited_then_failing :: "Response list" where
  "limited_then_failing =
     [rate_limited ''1'' ''first'', answered 500 (envelope ''internal_error'' ''boom''),
      answered 500 (envelope ''internal_error'' ''boom''),
      answered 500 (envelope ''internal_error'' ''boom'')]"

definition limited_then_long :: "Response list" where
  "limited_then_long =
     [rate_limited ''1'' ''first'', rate_limited ''400'' ''second'', rate_limited ''400'' ''third'',
      rate_limited ''400'' ''fourth'']"

section \<open>The predicate NotFound\<close>

text \<open>
  Claim C9. For every error value, \<open>NotFound\<close> is true exactly when the error unwraps
  to an API error whose status code is 404. It is false for the nil error, for an error
  that wraps no API error, and for an API error with any other status.
\<close>

theorem NotFound_iff:
  "(NotFound err = (\<exists>e a. err = Some e \<and> errors_As e = Some a \<and> StatusCode a = 404))
   \<and> NotFound None = False
   \<and> NotFound (Some (Leaf s)) = False
   \<and> NotFound (Some (Wrap pre (Leaf s))) = False
   \<and> NotFound (Some (API a')) = (StatusCode a' = 404)
   \<and> NotFound (Some (Wrap pre (API a'))) = (StatusCode a' = 404)"
  by (auto simp: NotFound_def hasStatus_def StatusNotFound_def split: option.splits)


section \<open>The request executor: what it returns\<close>

declare retry_loop.simps [simp del]

lemma u_doRequest_lt300:
  assumes "snd (Do E (calls w) (authorize c req)) = Inr resp"
    and "resp_Body resp = Inr b"
    and "resp_StatusCode resp < 300"
  shows "u_doRequest E c req flag w =
     (fst (decodeResponse E resp b flag (slot w)),
      w\<lparr>now := now w + fst (Do E (calls w) (authorize c req)), calls := Suc (calls w),
        trace := trace w @ [Sent (authorize c req)],
        slot := snd (decodeResponse E resp b flag (slot w))\<rparr>)"
  using assms by (simp add: u_doRequest_def Let_def)

lemma u_doRequest_ge300:
  assumes "snd (Do E (calls w) (authorize c req)) = Inr resp"
    and "resp_Body resp = Inr b"
    and "resp_StatusCode resp \<ge> 300"
  shows "u_doRequest E c req flag w =
     (Some (errorResponse E resp b),
      w\<lparr>now := now w + fst (Do E (calls w) (authorize c req)), calls := Suc (calls w),
        trace := trace w @ [Sent (authorize c req)]\<rparr>)"
  using assms by (simp add: u_doRequest_def Let_def)

lemma u_doRequest_calls: "calls (snd (u_doRequest E c req flag w)) = Suc (calls w)"
  by (simp add: u_doRequest_def Let_def split: sum.splits)

lemma errorResponse_status:
  "errorResponse E resp b = API a \<Longrightarrow> StatusCode a = resp_StatusCode resp"
  by (auto simp: errorResponse_def Let_def split: if_splits sum.splits option.splits)

text \<open>
  Claim C10. When the caller passed a nil \<^verbatim>\<open>v\<close>, every response with a status below 300
  makes \<^verbatim>\<open>_doRequest\<close> return nil, whatever the flag \<^verbatim>\<open>errorOnNoContent\<close> and also for
  status 204, because the test for nil comes first. With a nil \<^verbatim>\<open>v\<close> an API error
  that \<^verbatim>\<open>_doRequest\<close> returns has a status of 300 or more, so it is never the
  "no_content" error made for status 204.
\<close>

theorem nil_output_slot_returns_success:
  assumes "slot w = None"
  shows "(snd (Do E (calls w) (authorize c req)) = Inr resp \<and> resp_Body resp = Inr b
            \<and> resp_StatusCode resp < 300
          \<longrightarrow> fst (u_doRequest E c req flag w) = None
              \<and> slot (snd (u_doRequest E c req flag w)) = None)
       \<and> (\<forall>a. fst (u_doRequest E c req flag w) = Some (API a) \<longrightarrow> 300 \<le> StatusCode a)
       \<and> fst (u_doRequest E c req flag w) \<noteq>
           Some (API \<lparr>Code = ''no_content'', Message = ''No content'', StatusCode = StatusNoContent,
                      RawMessage = [], retryAfter = 0\<rparr>)"
proof -
  have A: "\<And>a. fst (u_doRequest E c req flag w) = Some (API a) \<Longrightarrow> 300 \<le> StatusCode a"
    using assms
    by (auto simp: u_doRequest_def Let_def decodeResponse_def
        split: sum.splits if_splits dest: errorResponse_status)
  have B: "snd (Do E (calls w) (authorize c req)) = Inr resp \<Longrightarrow> resp_Body resp = Inr b
            \<Longrightarrow> resp_StatusCode resp < 300
            \<Longrightarrow> fst (u_doRequest E c req flag w) = None
              \<and> slot (snd (u_doRequest E c req flag w)) = None"
    using assms by (simp add: u_doRequest_lt300 decodeResponse_def)
  have C: "fst (u_doRequest E c req flag w) \<noteq>
           Some (API \<lparr>Code = ''no_content'', Message = ''No content'', StatusCode = StatusNoContent,
                      RawMessage = [], retryAfter = 0\<rparr>)"
    using A[of "\<lparr>Code = ''no_content'', Message = ''No content'', StatusCode = StatusNoContent,
                      RawMessage = [], retryAfter = 0\<rparr>"]
    by (auto simp: StatusNoContent_def)
  from A B C show ?thesis by blast
qed

text \<open>The flag set, status 204 and a nil \<^verbatim>\<open>v\<close>: the call succeeds.\<close>

theorem nil_output_slot_witness:
  "slot (world0 None) = None
   \<and> snd (Do (example_env [answered 204 []]) (calls (world0 None))
        (authorize (New ''secret'') example_http_request)) = Inr (answered 204 [])
   \<and> resp_Body (answered 204 []) = Inr []
   \<and> resp_StatusCode (answered 204 []) < 300
   \<and> fst (u_doRequest (example_env [answered 204 []]) (New ''secret'') example_http_request True
        (world0 None)) = None"
proof -
  have h: "slot (world0 None) = None" by (simp add: world0_def)
  have d: "snd (Do (example_env [answered 204 []]) (calls (world0 None))
        (authorize (New ''secret'') example_http_request)) = Inr (answered 204 [])"
    by (simp add: example_env_def scripted_def world0_def)
  have b: "resp_Body (answered 204 []) = Inr []" "resp_StatusCode (answered 204 []) < 300"
    by (simp_all add: answered_def)
  from nil_output_slot_returns_success [OF h, of "example_env [answered 204 []]" "New ''secret''"
      example_http_request "answered 204 []" "[]" True] h d b
  show ?thesis by simp
qed

text \<open>
  Claim C6, as stated: for every response with a status below 300 and a non-nil \<^verbatim>\<open>v\<close>,
  the body is decoded into \<^verbatim>\<open>v\<close> and no API error is returned. It fails for status 204
  when the caller set \<^verbatim>\<open>errorOnNoContent\<close>: the executor returns the API error
  "no_content" and leaves \<^verbatim>\<open>v\<close> as it was.
\<close>

theorem no_content_flag_counterexample:
  "resp_StatusCode (answered 204 []) < 300
   \<and> slot (world0 (Some ''old'')) \<noteq> None
   \<and> u_doRequest (example_env [answered 204 []]) (New ''secret'') example_http_request True
        (world0 (Some ''old''))
     = (Some (API \<lparr>Code = ''no_content'', Message = ''No content'', StatusCode = 204,
                    RawMessage = [], retryAfter = 0\<rparr>),
        \<lparr>now = 20000000, calls = 1,
         trace = [Sent (authorize (New ''secret'') example_http_request)],
         slot = Some ''old''\<rparr>)"
  by (simp add: u_doRequest_def example_env_def scripted_def world0_def answered_def
      decodeResponse_def StatusNoContent_def Let_def)

text \<open>
  Claim C6, amended: for every response with a status below 300 and a non-nil \<^verbatim>\<open>v\<close>,
  unless \<^verbatim>\<open>errorOnNoContent\<close> is set and the status is 204, \<^verbatim>\<open>v\<close> holds afterwards what
  \<^verbatim>\<open>json.Unmarshal\<close> left there, and the error returned is nil when the decoding
  succeeded and otherwise the decoder's error wrapped by \<^verbatim>\<open>fmt.Errorf\<close>, whose text
  holds the raw body; it is never an API error.
\<close>

theorem success_decodes_into_slot:
  assumes "slot w = Some x"
    and "snd (Do E (calls w) (authorize c req)) = Inr resp"
    and "resp_Body resp = Inr b"
    and "resp_StatusCode resp < 300"
    and "\<not> (flag \<and> resp_StatusCode resp = StatusNoContent)"
  shows "slot (snd (u_doRequest E c req flag w)) = Some (snd (Unmarshal E b x))
       \<and> fst (u_doRequest E c req flag w)
           = map_option (Wrap (''error unmarshaling response '' @ b @ '': '')) (fst (Unmarshal E b x))
       \<and> (\<forall>a. fst (u_doRequest E c req flag w) \<noteq> Some (API a))
       \<and> (\<forall>err. fst (Unmarshal E b x) = Some err \<longrightarrow>
             (\<exists>e. fst (u_doRequest E c req flag w) = Some e
                \<and> Error e = ''error unmarshaling response '' @ b @ '': '' @ Error err))"
  using assms
  by (auto simp: u_doRequest_lt300 decodeResponse_def split: prod.splits option.splits)

theorem success_decodes_into_slot_witness:
  "slot (world0 (Some ''old'')) = Some ''old''
   \<and> u_doRequest (example_env [answered 200 ready]) (New ''secret'')
        example_http_request True (world0 (Some ''old''))
     = (None,
        \<lparr>now = 20000000, calls = 1,
         trace = [Sent (authorize (New ''secret'') example_http_request)],
         slot = Some ''ready''\<rparr>)"
proof -
  let ?E = "example_env [answered 200 ready]"
  let ?w = "world0 (Some ''old'')"
  have h1: "slot ?w = Some ''old''" by (simp add: world0_def)
  have h2: "snd (Do ?E (calls ?w) (authorize (New ''secret'') example_http_request))
              = Inr (answered 200 ready)"
    by (simp add: example_env_def scripted_def world0_def)
  have h3: "resp_Body (answered 200 ready) = Inr ready" by (simp add: answered_def)
  have h4: "resp_StatusCode (answered 200 ready) < 300" by (simp add: answered_def)
  have h5: "\<not> (True \<and> resp_StatusCode (answered 200 ready) = StatusNoContent)"
    by (simp add: answered_def StatusNoContent_def)
  have u: "Unmarshal ?E ready ''old'' = (None, ''ready'')"
    by (simp add: example_env_def example_Unmarshal_def)
  from success_decodes_into_slot [OF h1 h2 h3 h4 h5] u
  have "slot (snd (u_doRequest ?E (New ''secret'') example_http_request True ?w)) = Some ''ready''"
    and "fst (u_doRequest ?E (New ''secret'') example_http_request True ?w) = None"
    by simp_all
  moreover have "snd (u_doRequest ?E (New ''secret'') example_http_request True ?w)
     = \<lparr>now = 20000000, calls = 1,
         trace = [Sent (authorize (New ''secret'') example_http_request)],
         slot = slot (snd (u_doRequest ?E (New ''secret'') example_http_request True ?w))\<rparr>"
    by (simp add: u_doRequest_def example_env_def scripted_def world0_def answered_def Let_def)
  ultimately show ?thesis using h1 by (simp add: prod_eq_iff)
qed

text \<open>
  Claim C7, as stated: for every response with a status of 300 or more the error
  returned carries the raw body and the status code, also when the body failed to
  parse. It fails for a body that is not JSON: the executor returns the decoder's error
  wrapped by \<^verbatim>\<open>fmt.Errorf\<close>, which is no API error and has no field for the body or the
  status; only its text names the status.
\<close>

theorem unparseable_error_body_counterexample:
  "300 \<le> resp_StatusCode (answered 500 ''<html>'')
   \<and> fst (u_doRequest (example_env [answered 500 ''<html>'']) (New ''secret'') example_http_request
        False (world0 None))
     = Some (Wrap ''error unmarshaling response for status code 500: '' (Leaf ''invalid character''))
   \<and> errors_As (Wrap ''error unmarshaling response for status code 500: '' (Leaf ''invalid character''))
     = None"
  by code_simp

text \<open>
  Claim C7, amended: for every response with a status of 300 or more whose body is
  empty or parses as the error envelope, the error returned is an API error that carries
  the status code and the raw body; when a body that is not empty fails to parse, the
  error returned is the decoder's error wrapped in a text that names the status code.
\<close>

theorem error_carries_body_and_status:
  assumes "snd (Do E (calls w) (authorize c req)) = Inr resp"
    and "resp_Body resp = Inr b"
    and "300 \<le> resp_StatusCode resp"
  shows "(b = [] \<or> (\<exists>e0. UnmarshalError E b = Inr e0) \<longrightarrow>
            (\<exists>a. fst (u_doRequest E c req flag w) = Some (API a)
               \<and> StatusCode a = resp_StatusCode resp \<and> RawMessage a = b))
       \<and> (\<forall>err. b \<noteq> [] \<and> UnmarshalError E b = Inl err \<longrightarrow>
            fst (u_doRequest E c req flag w)
              = Some (Wrap (''error unmarshaling response for status code ''
                              @ itoa (resp_StatusCode resp) @ '': '') err))"
  using assms
  by (auto simp: u_doRequest_ge300 errorResponse_def Let_def split: option.splits)

theorem error_carries_body_and_status_witness:
  "300 \<le> resp_StatusCode (answered 500 (envelope ''internal_error'' ''boom''))
   \<and> (\<exists>a. fst (u_doRequest (example_env [answered 500 (envelope ''internal_error'' ''boom'')])
                (New ''secret'') example_http_request False (world0 None)) = Some (API a)
         \<and> StatusCode a = 500 \<and> RawMessage a = envelope ''internal_error'' ''boom'')"
proof -
  let ?b = "envelope ''internal_error'' ''boom''"
  let ?E = "example_env [answered 500 ?b]"
  have h1: "snd (Do ?E (calls (world0 None)) (authorize (New ''secret'') example_http_request))
              = Inr (answered 500 ?b)"
    by (simp add: example_env_def scripted_def world0_def)
  have h2: "resp_Body (answered 500 ?b) = Inr ?b" by (simp add: answered_def)
  have h3: "300 \<le> resp_StatusCode (answered 500 ?b)" by (simp add: answered_def)
  have u: "UnmarshalError ?E ?b
             = Inr \<lparr>Code = ''internal_error'', Message = ''boom'', StatusCode = 0, RawMessage = [],
                    retryAfter = 0\<rparr>"
    by code_simp
  from error_carries_body_and_status [OF h1 h2 h3, of False] u h3 show ?thesis
    by (simp add: answered_def)
qed

section \<open>The retry coordinator: what it returns\<close>

lemma retry_loop_not_retryable:
  "retryable err = None \<Longrightarrow> retry_loop E c req retries err w = (err, w)"
  by (simp add: retry_loop.simps loop_body_def)

lemma doRequest_not_retried:
  assumes "doRequest_closure E c req w = (err, w')" and "retryable err = None"
  shows "doRequest E c req w = (err, w')"
  using assms by (simp add: doRequest_def retry_loop_not_retryable)

lemma retryable_SomeD:
  "retryable err = Some a \<Longrightarrow>
     (\<exists>e. err = Some e \<and> errors_As e = Some a) \<and> StatusCode a = 429 \<and> 0 < retryAfter a
       \<and> retryAfter a < 300"
  by (auto simp: retryable_def StatusTooManyRequests_def split: option.splits if_splits)

lemma retryable_None_iff:
  "retryable (Some e) = None \<longleftrightarrow>
     (case errors_As e of None \<Rightarrow> True
      | Some a \<Rightarrow> StatusCode a \<noteq> 429 \<or> retryAfter a \<le> 0 \<or> 300 \<le> retryAfter a)"
  by (auto simp: retryable_def StatusTooManyRequests_def split: option.splits if_splits)

text \<open>
  Claim C5. Whenever the coordinator starts to wait for a retry (a pass of the loop
  entered with fewer than three retries made and an error that is a 429 with a delay
  above 0 and below 300 seconds) and the context is done before the timer fires, the
  call stops the timer, makes no further round trip and returns the context's error,
  not the 429; it returns when the context is done (at once, if it was done already),
  which is before the delay has passed.
\<close>

theorem cancelled_while_waiting:
  assumes "retries < 3"
    and "retryable err = Some a"
    and "ctx_Done (ctx req) = Some tc"
    and "tc < now w + retryAfter a * Second"
  shows "retry_loop E c req retries err w =
           (Some (ctx_Err (ctx req)),
            w\<lparr>now := max (now w) tc,
              trace := trace w @ [RateLimitLog a (retryAfter a), TimerStarted (retryAfter a * Second),
                                  TimerStopped]\<rparr>)
       \<and> calls (snd (retry_loop E c req retries err w)) = calls w
       \<and> now (snd (retry_loop E c req retries err w)) < now w + retryAfter a * Second"
proof -
  from assms(2) have "0 < retryAfter a" by (simp add: retryable_SomeD)
  then have d: "0 < retryAfter a * Second" by (simp add: Second_def)
  from assms d show ?thesis
    by (simp add: retry_loop.simps loop_body_def select_wait_def Let_def)
qed

text \<open>
  A 429 with \<^verbatim>\<open>Retry-After: 2\<close> answered after 20 ms, and a context cancelled one
  second later: the call returns the context's error at that moment, after one round
  trip.
\<close>

theorem cancelled_while_waiting_witness:
  "doRequest (example_env [rate_limited ''2'' ''first'']) (New ''secret'')
     (example_request (Some 1020000000) False) (world0 None)
   = (Some (Leaf ''context canceled''),
      \<lparr>now = 1020000000, calls = 1,
       trace = [Sent (authorize (New ''secret'') example_http_request),
                RateLimitLog \<lparr>Code = ''rate_limited'', Message = ''first'', StatusCode = 429,
                               RawMessage = envelope ''rate_limited'' ''first'', retryAfter = 2\<rparr> 2,
                TimerStarted 2000000000, TimerStopped],
       slot = None\<rparr>)"
proof -
  let ?E = "example_env [rate_limited ''2'' ''first'']"
  let ?req = "example_request (Some 1020000000) False"
  let ?a = "\<lparr>Code = ''rate_limited'', Message = ''first'', StatusCode = 429,
             RawMessage = envelope ''rate_limited'' ''first'', retryAfter = 2\<rparr>"
  let ?w = "\<lparr>now = 20000000, calls = 1,
             trace = [Sent (authorize (New ''secret'') example_http_request)],
             slot = None :: string option\<rparr>"
  have first: "doRequest_closure ?E (New ''secret'') ?req (world0 None) = (Some (API ?a), ?w)"
    by code_simp
  have h1: "(0::nat) < 3" by simp
  have h2: "retryable (Some (API ?a)) = Some ?a"
    by (simp add: retryable_def StatusTooManyRequests_def)
  have h3: "ctx_Done (ctx ?req) = Some 1020000000" by (simp add: example_request_def)
  have h4: "1020000000 < now ?w + retryAfter ?a * Second" by (simp add: Second_def)
  have h5: "ctx_Err (ctx ?req) = Leaf ''context canceled''" by (simp add: example_request_def)
  from cancelled_while_waiting [OF h1 h2 h3 h4, of ?E "New ''secret''"] h5
  have "retry_loop ?E (New ''secret'') ?req 0 (Some (API ?a)) ?w
          = (Some (Leaf ''context canceled''),
             ?w\<lparr>now := max (now ?w) 1020000000,
                trace := trace ?w @ [RateLimitLog ?a (retryAfter ?a),
                                    TimerStarted (retryAfter ?a * Second), TimerStopped]\<rparr>)"
    by simp
  with first show ?thesis by (simp add: doRequest_def Second_def)
qed

subsection \<open>Errors of the retries\<close>

text \<open>
  What a pass of the loop can return, and so what the loop can: the error the loop was
  entered with, nil, the context's error, or the error of \<^verbatim>\<open>toHTTPRequest\<close>. The error
  of a retry is none of them.
\<close>

lemma loop_body_cases:
  "loop_body E c req err w = Return r w' \<Longrightarrow>
     r = err \<or> r = None \<or> r = Some (ctx_Err (ctx req)) \<or> (\<exists>e. toHTTPRequest E req = Inl e \<and> r = Some e)"
  by (auto simp: loop_body_def Let_def split: option.splits prod.splits selected.splits sum.splits)

lemma retry_loop_result:
  "fst (retry_loop E c req retries err w) = err
   \<or> fst (retry_loop E c req retries err w) = None
   \<or> fst (retry_loop E c req retries err w) = Some (ctx_Err (ctx req))
   \<or> (\<exists>e. toHTTPRequest E req = Inl e \<and> fst (retry_loop E c req retries err w) = Some e)"
proof (induction E c req retries err w rule: retry_loop.induct)
  case (1 E c req retries err w)
  show ?case
  proof (cases "retries < 3")
    case False
    then show ?thesis by (simp add: retry_loop.simps)
  next
    case True
    show ?thesis
    proof (cases "loop_body E c req err w")
      case (Return r w')
      with True loop_body_cases [OF Return] show ?thesis
        by (auto simp: retry_loop.simps [of E c req retries])
    next
      case (Continue w')
      with True "1.IH" [OF True Continue] show ?thesis
        by (simp add: retry_loop.simps [of E c req retries])
    qed
  qed
qed

lemma loop_body_failing:
  assumes "ctx_Done (ctx req) = None"
    and "toHTTPRequest E req = Inr r"
    and "retryable err = Some a"
    and "fst (u_doRequest E c r (errorOnNoContent req)
               (w\<lparr>trace := trace w @ [RateLimitLog a (retryAfter a), TimerStarted (retryAfter a * Second)],
                  now := now w + retryAfter a * Second\<rparr>)) \<noteq> None"
  shows "\<exists>w'. loop_body E c req err w = Continue w' \<and> calls w' = Suc (calls w)"
proof -
  let ?w1 = "w\<lparr>trace := trace w @ [RateLimitLog a (retryAfter a), TimerStarted (retryAfter a * Second)],
                  now := now w + retryAfter a * Second\<rparr>"
  obtain e w2 where u: "u_doRequest E c r (errorOnNoContent req) ?w1 = (Some e, w2)"
    using assms(4) by (cases "u_doRequest E c r (errorOnNoContent req) ?w1") auto
  have "calls w2 = Suc (calls w)"
    using u_doRequest_calls [of E c r "errorOnNoContent req" ?w1] u by simp
  with assms(1-3) u show ?thesis
    by (simp add: loop_body_def select_wait_def Let_def)
qed

text \<open>
  When the context is never done and every round trip fails, a loop entered with a 429
  whose delay is above 0 and below 300 makes every retry that is left and returns the
  error it was entered with.
\<close>

lemma retry_loop_exhausted:
  assumes "ctx_Done (ctx req) = None"
    and "toHTTPRequest E req = Inr r"
    and "retryable err = Some a"
    and "\<And>w'. fst (u_doRequest E c r (errorOnNoContent req) w') \<noteq> None"
  shows "fst (retry_loop E c req retries err w) = err
       \<and> calls (snd (retry_loop E c req retries err w)) = calls w + (3 - retries)"
proof (induction "3 - retries" arbitrary: retries w)
  case 0
  then show ?case by (simp add: retry_loop.simps)
next
  case (Suc k)
  then have lt: "retries < 3" by simp
  from loop_body_failing [OF assms(1-3) assms(4)]
  obtain w' where w': "loop_body E c req err w = Continue w'" "calls w' = Suc (calls w)"
    by blast
  from Suc(2) have "k = 3 - Suc retries" by simp
  from Suc(1) [OF this, of w'] lt w' show ?case
    by (simp add: retry_loop.simps [of E c req retries])
qed

lemma doRequest_exhausted:
  assumes "ctx_Done (ctx req) = None"
    and "toHTTPRequest E req = Inr r"
    and "\<And>w'. fst (u_doRequest E c r (errorOnNoContent req) w') \<noteq> None"
    and "retryable (fst (u_doRequest E c r (errorOnNoContent req) w)) = Some a"
  shows "fst (doRequest E c req w) = fst (u_doRequest E c r (errorOnNoContent req) w)
       \<and> calls (snd (doRequest E c req w)) = calls w + 4"
proof -
  obtain err w1 where u: "u_doRequest E c r (errorOnNoContent req) w = (err, w1)"
    by (cases "u_doRequest E c r (errorOnNoContent req) w") auto
  then have c1: "calls w1 = Suc (calls w)"
    using u_doRequest_calls [of E c r "errorOnNoContent req" w] by simp
  from u assms(4) have ra: "retryable err = Some a" by simp
  from retry_loop_exhausted [OF assms(1,2) ra assms(3), of 0 w1] u c1 assms(2)
  show ?thesis by (simp add: doRequest_def doRequest_closure_def)
qed

text \<open>
  Claim C1, on the code. Four 429 responses with \<^verbatim>\<open>Retry-After\<close> 1, 2, 3 and 4: the
  coordinator makes four round trips, as the claim says, and then returns the error of
  the first one, where the claim has the error of the last (the fourth round trip
  returns another error).
\<close>

theorem always_limited_returns_first_error:
  "fst (doRequest (example_env always_limited) (New ''secret'') (example_request None False)
          (world0 None)) = Some (API (limited_error ''first'' 1))
   \<and> calls (snd (doRequest (example_env always_limited) (New ''secret'') (example_request None False)
          (world0 None))) = 4
   \<and> fst (u_doRequest (example_env always_limited) (New ''secret'') example_http_request False
          ((world0 None)\<lparr>calls := 3\<rparr>)) = Some (API (limited_error ''fourth'' 4))
   \<and> limited_error ''fourth'' 4 \<noteq> limited_error ''first'' 1"
  by code_simp

text \<open>
  Claim C2, on the code. A 429 with \<^verbatim>\<open>Retry-After: 1\<close>, then responses with status 500:
  the second round trip fails with an API error of status 500, and the coordinator
  still makes the third and the fourth round trip and returns the 429 of the first,
  where the claim has it stop at the 500 and return it.
\<close>

theorem later_failure_is_retried:
  "fst (u_doRequest (example_env limited_then_failing) (New ''secret'') example_http_request False
          ((world0 None)\<lparr>calls := 1\<rparr>))
     = Some (API \<lparr>Code = ''internal_error'', Message = ''boom'', StatusCode = 500,
                   RawMessage = envelope ''internal_error'' ''boom'', retryAfter = 1000\<rparr>)
   \<and> fst (doRequest (example_env limited_then_failing) (New ''secret'') (example_request None False)
          (world0 None)) = Some (API (limited_error ''first'' 1))
   \<and> calls (snd (doRequest (example_env limited_then_failing) (New ''secret'')
          (example_request None False) (world0 None))) = 4"
  by code_simp

text \<open>
  Claim C4, on the code. A 429 with \<^verbatim>\<open>Retry-After: 1\<close>, then 429 responses with
  \<^verbatim>\<open>Retry-After: 400\<close>: the second round trip fails with a 429 whose delay is 400, and
  the coordinator still waits (three waits of one second in all), makes the third and
  the fourth round trip and returns the 429 of the first, where the claim has it return
  the 429 with the delay of 400 at once.
\<close>

theorem later_long_delay_is_retried:
  "fst (u_doRequest (example_env limited_then_long) (New ''secret'') example_http_request False
          ((world0 None)\<lparr>calls := 1\<rparr>)) = Some (API (limited_error ''second'' 400))
   \<and> fst (doRequest (example_env limited_then_long) (New ''secret'') (example_request None False)
          (world0 None)) = Some (API (limited_error ''first'' 1))
   \<and> calls (snd (doRequest (example_env limited_then_long) (New ''secret'')
          (example_request None False) (world0 None))) = 4
   \<and> now (snd (doRequest (example_env limited_then_long) (New ''secret'')
          (example_request None False) (world0 None))) = 3 * Second + 4 * 20000000"
  by code_simp

subsection \<open>The default delay\<close>

text \<open>
  The delay of an API error made from a body that parsed is 1000, unless the status is
  429 and the header \<^verbatim>\<open>Retry-After\<close> holds a number above 0; and a delay of 1000 is
  not one the coordinator retries after.
\<close>

lemma errorResponse_default_delay:
  assumes "b \<noteq> []" and "UnmarshalError E b = Inr e0"
    and "resp_StatusCode resp \<noteq> 429
         \<or> Header_Get (resp_Header resp) ''Retry-After'' = []
         \<or> Atoi (Header_Get (resp_Header resp) ''Retry-After'') = None
         \<or> (\<exists>n. Atoi (Header_Get (resp_Header resp) ''Retry-After'') = Some n \<and> n \<le> 0)"
  shows "errorResponse E resp b
           = API (e0\<lparr>StatusCode := resp_StatusCode resp, RawMessage := b, retryAfter := 1000\<rparr>)
       \<and> retryable (Some (errorResponse E resp b)) = None"
  using assms
  by (auto simp: errorResponse_def Let_def StatusTooManyRequests_def retryable_def
      split: option.splits)

text \<open>
  Claim C3, on the code. A 429 whose body parses and that has no \<^verbatim>\<open>Retry-After\<close>
  header: the delay of the error is 1000, which the coordinator reads as seconds, as it
  reads the header's value; 1000 is not below 300, so the call returns the 429 after
  one round trip, without a wait, where the claim has a delay of one second, a wait
  and a retry.
\<close>

theorem default_delay_is_not_retried:
  "doRequest (example_env [rate_limited [] ''first'', rate_limited [] ''second''])
     (New ''secret'') (example_request None False) (world0 None)
   = (Some (API (limited_error ''first'' 1000)),
      \<lparr>now = 20000000, calls = 1,
       trace = [Sent (authorize (New ''secret'') example_http_request)], slot = None\<rparr>)
   \<and> retryAfter (limited_error ''first'' 1000) * Second = 1000 * 1000000000"
  by code_simp

section \<open>The URL builder: escaping and substitution\<close>

lemma nibble_cases:
  "k < 16 \<Longrightarrow> k \<in> {0, 1, 2, 3, 4, 5, 6, 7, 8, 9, 10, 11, 12, 13, 14, 15 :: nat}"
  by simp arith

lemma unhex_upperhex: "n < 16 \<Longrightarrow> unhex (upperhex n) = n"
  by (drule nibble_cases) (auto simp: unhex_def upperhex_def)

lemma ishex_upperhex: "n < 16 \<Longrightarrow> ishex (upperhex n)"
  by (drule nibble_cases) (auto simp: ishex_def upperhex_def)

lemma of_char_below_256: "(of_char ch :: nat) < 256"
  by (cases ch) simp

lemma of_char_high_nibble: "(of_char ch :: nat) div 16 < 16"
  using of_char_below_256 [of ch] by presburger

lemma kept_is_not_percent: "\<not> shouldEscape ch \<Longrightarrow> ch \<noteq> CHR ''%''"
  by (auto simp: shouldEscape_def)

lemma PathUnescape_escape_byte:
  "PathUnescape (escape_byte ch @ s) = map_option ((#) ch) (PathUnescape s)"
proof (cases "shouldEscape ch")
  case True
  have "char_of (unhex (upperhex ((of_char ch :: nat) div 16)) * 16
          + unhex (upperhex ((of_char ch :: nat) mod 16))) = ch"
    by (simp add: unhex_upperhex of_char_high_nibble)
  with True show ?thesis
    by (simp add: escape_byte_def ishex_upperhex of_char_high_nibble)
next
  case False
  then show ?thesis by (simp add: escape_byte_def kept_is_not_percent)
qed

lemma PathUnescape_PathEscape: "PathUnescape (PathEscape s) = Some s"
  by (induction s) (simp_all add: PathEscape_def PathUnescape_escape_byte)


lemma upperhex_is_no_delimiter:
  "n < 16 \<Longrightarrow> upperhex n \<noteq> CHR ''/'' \<and> upperhex n \<noteq> CHR ''?'' \<and> upperhex n \<noteq> CHR '' ''"
  by (drule nibble_cases) (auto simp: upperhex_def)

lemma delimiters_are_escaped:
  "shouldEscape (CHR ''/'')" "shouldEscape (CHR ''?'')" "shouldEscape (CHR '' '')"
  by (simp_all add: shouldEscape_def)

lemma escape_byte_hides:
  "CHR ''/'' \<notin> set (escape_byte ch) \<and> CHR ''?'' \<notin> set (escape_byte ch)
   \<and> CHR '' '' \<notin> set (escape_byte ch)"
proof (cases "shouldEscape ch")
  case True
  have "(of_char ch :: nat) mod 16 < 16" by simp
  from upperhex_is_no_delimiter [OF of_char_high_nibble [of ch]] upperhex_is_no_delimiter [OF this]
    True
  show ?thesis by (auto simp: escape_byte_def)
next
  case False
  with delimiters_are_escaped have "ch \<noteq> CHR ''/''" "ch \<noteq> CHR ''?''" "ch \<noteq> CHR '' ''"
    by auto
  with False show ?thesis by (simp add: escape_byte_def)
qed

lemma PathEscape_hides:
  "CHR ''/'' \<notin> set (PathEscape s) \<and> CHR ''?'' \<notin> set (PathEscape s)
   \<and> CHR '' '' \<notin> set (PathEscape s)"
  using escape_byte_hides by (induction s) (auto simp: PathEscape_def)

lemma Sprintf_text: "ch \<noteq> CHR ''%'' \<Longrightarrow> Sprintf (ch # f) as = map_option ((#) ch) (Sprintf f as)"
  by (cases f) simp_all

lemma Sprintf_plain: "plain p \<Longrightarrow> Sprintf (p @ f) as = map_option ((@) p) (Sprintf f as)"
proof (induction p)
  case Nil
  then show ?case by (simp add: option.map_ident)
next
  case (Cons ch p)
  then have "ch \<noteq> CHR ''%''" "plain p" by (auto simp: plain_def)
  with Cons.IH show ?case by (simp add: Sprintf_text option.map_comp comp_def)
qed

lemma Sprintf_template:
  "list_all plain ps \<Longrightarrow> length ps = Suc (length vs) \<Longrightarrow> Sprintf (template ps) vs = Some (filled ps vs)"
proof (induction ps vs rule: filled.induct)
  case (1 vs)
  then show ?case by simp
next
  case (2 p vs)
  then have "Sprintf (p @ []) [] = map_option ((@) p) (Sprintf [] [])"
    by (intro Sprintf_plain) simp
  with 2 show ?case by (simp add: extraArgs_def)
next
  case (3 p q ps)
  then show ?case by simp
next
  case (4 p q ps v vs)
  then have "Sprintf (p @ (''%s'' @ template (q # ps))) (v # vs)
               = map_option ((@) p) (Sprintf (''%s'' @ template (q # ps)) (v # vs))"
    by (intro Sprintf_plain) simp
  with 4 show ?case by simp
qed

lemma template_prefix: "ps \<noteq> [] \<Longrightarrow> b @ template ps = template ((b @ hd ps) # tl ps)"
  by (cases ps rule: template.cases) simp_all

lemma filled_prefix: "ps \<noteq> [] \<Longrightarrow> b @ filled ps vs = filled ((b @ hd ps) # tl ps) vs"
  by (cases "(ps, vs)" rule: filled.cases) simp_all


text \<open>
  Claim C8. For a template made of pieces of text with one placeholder between each
  two, and as many values as placeholders, \<^verbatim>\<open>makeURL\<close> is the client's base URL
  followed by the template's pieces with the escaped values in the placeholders'
  places, in order; each value is escaped on its own; un-escaping an escaped value
  gives the value back; and an escaped value holds no \<^verbatim>\<open>/\<close>, no \<^verbatim>\<open>?\<close> and no space.
  (The base URL and the pieces hold no \<^verbatim>\<open>%\<close>: the base URL is part of the format
  that \<^verbatim>\<open>fmt.Sprintf\<close> reads.)
\<close>

theorem makeURL_escapes_and_substitutes:
  assumes "plain (baseURL c)"
    and "list_all plain ps"
    and "length ps = Suc (length vs)"
  shows "makeURL c (template ps) vs = Some (baseURL c @ filled ps (map PathEscape vs))
       \<and> (\<forall>v. PathUnescape (PathEscape v) = Some v)
       \<and> (\<forall>v. CHR ''/'' \<notin> set (PathEscape v) \<and> CHR ''?'' \<notin> set (PathEscape v)
              \<and> CHR '' '' \<notin> set (PathEscape v))"
proof -
  from assms(3) have ne: "ps \<noteq> []" by auto
  have inner: "Sprintf ''%s%s'' [baseURL c, template ps] = Some (baseURL c @ template ps)"
    by (simp add: extraArgs_def)
  let ?qs = "(baseURL c @ hd ps) # tl ps"
  from assms ne have "list_all plain ?qs" "length ?qs = Suc (length (map PathEscape vs))"
    by (cases ps; simp add: plain_def)+
  then have "Sprintf (template ?qs) (map PathEscape vs) = Some (filled ?qs (map PathEscape vs))"
    by (rule Sprintf_template)
  with ne inner have "makeURL c (template ps) vs = Some (baseURL c @ filled ps (map PathEscape vs))"
    by (simp add: makeURL_def template_prefix [symmetric] filled_prefix [symmetric])
  then show ?thesis
    by (simp add: PathUnescape_PathEscape PathEscape_hides)
qed

theorem makeURL_witness:
  "makeURL (New ''secret'') ''/v9/projects/%s/domains/%s'' [''a/b?c d'', ''x'']
     = Some ''https://api.vercel.com/v9/projects/a%2Fb%3Fc%20d/domains/x''
   \<and> PathUnescape ''a%2Fb%3Fc%20d'' = Some ''a/b?c d''"
proof -
  have h1: "plain (baseURL (New ''secret''))" by (simp add: New_def plain_def)
  have h2: "list_all plain [''/v9/projects/'', ''/domains/'', []]" by (simp add: plain_def)
  have h3: "length [''/v9/projects/'', ''/domains/'', []] = Suc (length [''a/b?c d'', ''x''])"
    by simp
  have e: "PathEscape ''a/b?c d'' = ''a%2Fb%3Fc%20d''" "PathEscape ''x'' = ''x''"
    by code_simp+
  from makeURL_escapes_and_substitutes [OF h1 h2 h3] have
    "makeURL (New ''secret'') (template [''/v9/projects/'', ''/domains/'', []]) [''a/b?c d'', ''x'']
       = Some (baseURL (New ''secret'')
               @ filled [''/v9/projects/'', ''/domains/'', []] (map PathEscape [''a/b?c d'', ''x'']))"
    and "PathUnescape (PathEscape ''a/b?c d'') = Some ''a/b?c d''"
    by blast+
  with e show ?thesis by (simp add: New_def)
qed

end
